theory Spec2Isabelle
  imports Main "HOL-Library.Char_ord" "HOL-Library.List_Lexorder"
begin

section \<open>The DIMO vehicle telemetry data generator\<close>

text \<open>
  A shallow embedding of \<^verbatim>\<open>vehicle_data_simulator.py\<close>: the taxonomy table, the
  registration of the sampler columns on the configuration builder, the generation step
  with its unwrapping of the preview result, and the save step.
\<close>

subsection \<open>Python values and dictionaries\<close>

text \<open>
  The scalar values that reach the output records: strings, integers, \<^verbatim>\<open>None\<close> and the
  float NaN, which is what pandas hands back for most missing values. NaN is not equal to
  itself, and Python's dictionaries and tuple comparisons look at the identity of an
  object before they ask for equality; so a NaN carries the identity of its object, and
  two of them are the same key exactly when they are the same object.
\<close>

datatype pyval = PStr string | PInt int | PNone | PNaN nat

text \<open>
  A Python \<^verbatim>\<open>dict\<close> keeps its keys in insertion order: it is an association list
  whose keys are distinct. \<^verbatim>\<open>d[k] = v\<close> replaces the value of a key that is present,
  in place, and appends a key that is new.
\<close>

type_synonym ('k, 'v) dict = "('k \<times> 'v) list"

fun dict_set :: "'k \<Rightarrow> 'v \<Rightarrow> ('k, 'v) dict \<Rightarrow> ('k, 'v) dict" where
  "dict_set k v [] = [(k, v)]"
| "dict_set k v ((k', v') # d) =
     (if k' = k then (k, v) # d else (k', v') # dict_set k v d)"

definition dict_get :: "('k, 'v) dict \<Rightarrow> 'k \<Rightarrow> 'v \<Rightarrow> 'v" where
  "dict_get d k dflt = (case map_of d k of None \<Rightarrow> dflt | Some v \<Rightarrow> v)"

definition keys :: "('k, 'v) dict \<Rightarrow> 'k list" where
  "keys d = map fst d"

definition dict_values :: "('k, 'v) dict \<Rightarrow> 'v list" where
  "dict_values d = map snd d"

subsection \<open>Step 3: the taxonomy\<close>

text \<open>
  \<^verbatim>\<open>define_dimo_categories\<close> returns the dictionary literal below, in the order in
  which the source writes it. (Its console summary is not part of the value returned.)
\<close>

definition define_dimo_categories :: "(string, string list) dict" where
  "define_dimo_categories =
    [(''vehicle_info_status'',
        [''odometer_reading'', ''ignition_status'', ''vehicle_speed'',
         ''powertrain_type'', ''remaining_range'']),
     (''location_data'',
        [''latitude_longitude'', ''altitude'', ''approximate_location'',
         ''location_privacy_zones'']),
     (''battery_charging'',
        [''state_of_charge'', ''charging_status'', ''charge_limit'', ''battery_power'',
         ''charging_current_voltage'', ''gross_battery_capacity'', ''remaining_energy'',
         ''low_voltage_battery'']),
     (''engine_metrics'',
        [''engine_rpm'', ''throttle_position'', ''engine_air_intake'', ''oil_level'',
         ''coolant_temperature'']),
     (''fuel_system'',
        [''fuel_type'', ''fuel_percentage'', ''fuel_level_liters'']),
     (''tire_pressure'',
        [''front_left_wheel'', ''front_right_wheel'', ''rear_left_wheel'',
         ''rear_right_wheel'']),
     (''doors_windows'',
        [''front_driver_door'', ''front_passenger_door'', ''rear_driver_door'',
         ''rear_passenger_door'', ''front_driver_window'', ''front_passenger_window'',
         ''rear_driver_window'', ''rear_passenger_window'']),
     (''diagnostics'',
        [''diagnostic_trouble_codes'', ''engine_runtime'', ''intake_temperature'',
         ''engine_load'', ''barometric_pressure'']),
     (''environmental'',
        [''exterior_air_temperature'']),
     (''device_connectivity'',
        [''wifi_status'', ''ssid'', ''gps_satellites'', ''gps_precision''])]"

subsection \<open>Steps 4 and 5: the columns registered on the configuration builder\<close>

text \<open>
  The sampler classes belong to the service's client library; the script only constructs
  them, so they are the plain data carriers of the arguments the script passes. The
  builder keeps the registered columns in a dictionary under their names (a column
  registered under a name already present replaces it); the models it was created with
  stay a parameter.
\<close>

datatype sampler_type = CATEGORY | SUBCATEGORY

datatype sampler_params =
    CategorySamplerParams "string list"
  | SubcategorySamplerParams string "(string, string list) dict"

datatype column_config =
    SamplerColumnConfig string sampler_type sampler_params
  | LLMTextColumn string string string

fun column_name :: "column_config \<Rightarrow> string" where
  "column_name (SamplerColumnConfig name ty params) = name"
| "column_name (LLMTextColumn name model_alias prompt) = name"

record 'm config_builder =
  model_configs :: "'m list"
  column_configs :: "(string, column_config) dict"

definition add_column :: "'m config_builder \<Rightarrow> column_config \<Rightarrow> 'm config_builder" where
  "add_column config_builder c =
     config_builder\<lparr>column_configs :=
       dict_set (column_name c) c (column_configs config_builder)\<rparr>"

text \<open>
  \<^verbatim>\<open>create_category_subcategory_columns\<close>: the category sampler over the keys of the
  taxonomy, then the subcategory sampler, whose mapping the loop
  \<^verbatim>\<open>for category, subcategories in categories.items()\<close> fills entry by entry.
\<close>

definition create_category_subcategory_columns ::
  "'m config_builder \<Rightarrow> (string, string list) dict \<Rightarrow> string \<Rightarrow> 'm config_builder" where
  "create_category_subcategory_columns config_builder categories model_alias =
     (let category_list = keys categories;
          config_builder1 = add_column config_builder
            (SamplerColumnConfig ''category'' CATEGORY (CategorySamplerParams category_list));
          subcategory_mapping =
            fold (\<lambda>(category, subcategories) m. dict_set category subcategories m)
              categories [];
          config_builder2 = add_column config_builder1
            (SamplerColumnConfig ''subcategory'' SUBCATEGORY
               (SubcategorySamplerParams ''category'' subcategory_mapping))
      in config_builder2)"

definition telemetry_prompt :: string where
  "telemetry_prompt =
     ''Generate a realistic telemetry value for {{category}} - {{subcategory}}. '' @
     ''Return only the numeric value with units.''"

definition add_telemetry_value_column :: "'m config_builder \<Rightarrow> string \<Rightarrow> 'm config_builder" where
  "add_telemetry_value_column config_builder model_alias =
     add_column config_builder
       (LLMTextColumn ''telemetry_value'' model_alias telemetry_prompt)"

subsection \<open>Datasets, objects, errors and the console\<close>

text \<open>
  A dataset is a pandas frame: its column names, and its rows as \<^verbatim>\<open>iterrows()\<close>
  yields them, each the index label of the row with the row itself, which gives the cell
  under every column name (what it gives under another name is never read). A missing
  value is a cell like any other: \<^verbatim>\<open>None\<close> or NaN, whichever the frame hands back.
\<close>

record dataframe =
  columns :: "string list"
  rows :: "(pyval \<times> (string \<Rightarrow> pyval)) list"

text \<open>
  What the preview call may hand back: \<^verbatim>\<open>None\<close>, a frame, a plain list, or an object
  with named attributes (which is iterable when \<^verbatim>\<open>__iter__\<close> is among them).
  Attribute access to the columns of a frame is not modelled: a frame exposes
  \<^verbatim>\<open>__iter__\<close> and neither \<^verbatim>\<open>dataset\<close> nor \<^verbatim>\<open>data\<close>.
\<close>

datatype pyobj =
    PyNone
  | DataFrame dataframe
  | PyList "pyobj list"
  | Object "(string \<times> pyobj) list"

text \<open>
  The exceptions of the model are all instances of Python's \<^verbatim>\<open>Exception\<close>, the class
  that the handler of the generation step names.
\<close>

datatype error = ServiceError string | TypeError | AttributeError string | KeyError string

fun hasattr :: "pyobj \<Rightarrow> string \<Rightarrow> bool" where
  "hasattr PyNone a = False"
| "hasattr (DataFrame df) a = (a = ''__iter__'')"
| "hasattr (PyList xs) a = (a = ''__iter__'')"
| "hasattr (Object attrs) a = (a \<in> set (map fst attrs))"

fun getattr :: "pyobj \<Rightarrow> string \<Rightarrow> error + pyobj" where
  "getattr (Object attrs) a =
     (case map_of attrs a of None \<Rightarrow> Inl (AttributeError a) | Some v \<Rightarrow> Inr v)"
| "getattr obj a = Inl (AttributeError a)"

fun py_len :: "pyobj \<Rightarrow> error + nat" where
  "py_len (DataFrame df) = Inr (length (rows df))"
| "py_len (PyList xs) = Inr (length xs)"
| "py_len obj = Inl TypeError"

fun head :: "pyobj \<Rightarrow> nat \<Rightarrow> error + pyobj" where
  "head (DataFrame df) n = Inr (DataFrame (df\<lparr>rows := take n (rows df)\<rparr>))"
| "head obj n = Inl (AttributeError ''head'')"

text \<open>One constructor for each line the two steps print.\<close>

datatype message =
    StepBanner string
  | GeneratingSamples int
  | MayTakeAFewMoments
  | CallingPreview
  | PreviewCompleted
  | ResultType pyobj
  | PreviewResultIsNone
  | FoundDatasetAttribute
  | FoundDataAttribute
  | UsingResultDirectly
  | AvailableAttributes pyobj
  | DatasetType pyobj
  | SuccessfullyGenerated nat
  | FirstSample
  | Shown pyobj
  | CouldNotExtract
  | ErrorDuringGeneration error
  | Traceback error
  | NoDatasetToSave
  | DatasetIsEmpty
  | DatasetSavedTo string
  | PreviewHeader
  | SampleNumber nat
  | CategoryLine pyval
  | SubcategoryLine pyval
  | ValueLine pyval
  | StatisticsHeader
  | TotalSamples nat
  | UniqueCategories nat
  | SamplesPerCategory
  | CategoryCount pyval nat
  | CategoryCountsInSortOrder "(pyval \<times> nat) list"

text \<open>
  An output record is a dictionary from field names to values. The world the steps act
  on: the two console streams, and the files, each holding the JSON array (the list of
  records) that \<^verbatim>\<open>json.dump\<close> was given.
\<close>

type_synonym output_record = "(string, pyval) dict"

record world =
  stdout :: "message list"
  stderr :: "message list"
  files :: "string \<rightharpoonup> output_record list"

definition print :: "message \<Rightarrow> world \<Rightarrow> world" where
  "print m w = w\<lparr>stdout := stdout w @ [m]\<rparr>"

definition print_exc :: "error \<Rightarrow> world \<Rightarrow> world" where
  "print_exc e w = w\<lparr>stderr := stderr w @ [Traceback e]\<rparr>"

subsection \<open>Step 6: the generation step\<close>

text \<open>
  The remote service is a parameter: \<^verbatim>\<open>client.preview(config_builder, num_records)\<close>
  either raises or returns an object. The body of the \<^verbatim>\<open>try\<close> block follows; a raise
  anywhere in it leaves with \<open>Inl\<close> and the console as printed so far.
\<close>

type_synonym 'm client = "'m config_builder \<Rightarrow> int \<Rightarrow> error + pyobj"

definition extract_dataset :: "pyobj \<Rightarrow> world \<Rightarrow> (error + pyobj) \<times> world" where
  "extract_dataset preview_result w =
     (if hasattr preview_result ''dataset'' then
        (case getattr preview_result ''dataset'' of
           Inl e \<Rightarrow> (Inl e, w)
         | Inr dataset \<Rightarrow> (Inr dataset, print FoundDatasetAttribute w))
      else if hasattr preview_result ''data'' then
        (case getattr preview_result ''data'' of
           Inl e \<Rightarrow> (Inl e, w)
         | Inr dataset \<Rightarrow> (Inr dataset, print FoundDataAttribute w))
      else if hasattr preview_result ''__iter__'' then
        (Inr preview_result, print UsingResultDirectly w)
      else (Inr PyNone, print (AvailableAttributes preview_result) w))"

definition report_dataset :: "pyobj \<Rightarrow> world \<Rightarrow> (error + pyobj) \<times> world" where
  "report_dataset dataset w =
     (if dataset \<noteq> PyNone then
        (let w1 = print (DatasetType dataset) w in
         case py_len dataset of
           Inl e \<Rightarrow> (Inl e, w1)
         | Inr n \<Rightarrow>
             (let w2 = print FirstSample (print (SuccessfullyGenerated n) w1) in
              case head dataset 1 of
                Inl e \<Rightarrow> (Inl e, w2)
              | Inr first \<Rightarrow> (Inr dataset, print (Shown first) w2)))
      else (Inr PyNone, print CouldNotExtract w))"

definition generate_try :: "'m client \<Rightarrow> 'm config_builder \<Rightarrow> int \<Rightarrow> world \<Rightarrow>
    (error + pyobj) \<times> world" where
  "generate_try client config_builder num_samples w =
     (let w1 = print CallingPreview w in
      case client config_builder num_samples of
        Inl e \<Rightarrow> (Inl e, w1)
      | Inr preview_result \<Rightarrow>
          (let w2 = print (ResultType preview_result) (print PreviewCompleted w1) in
           if preview_result = PyNone then (Inr PyNone, print PreviewResultIsNone w2)
           else
             (case extract_dataset preview_result w2 of
                (Inl e, w3) \<Rightarrow> (Inl e, w3)
              | (Inr dataset, w3) \<Rightarrow> report_dataset dataset w3)))"

text \<open>
  \<^verbatim>\<open>generate_dimo_dataset\<close>: the banner, the \<^verbatim>\<open>try\<close> block, and the handler
  \<^verbatim>\<open>except Exception\<close>, which prints the error and the traceback and returns
  \<^verbatim>\<open>None\<close>.
\<close>

definition generate_dimo_dataset :: "'m client \<Rightarrow> 'm config_builder \<Rightarrow> int \<Rightarrow> world \<Rightarrow>
    (error + pyobj) \<times> world" where
  "generate_dimo_dataset client config_builder num_samples w =
     (let w0 = print MayTakeAFewMoments
                 (print (GeneratingSamples num_samples)
                    (print (StepBanner ''STEP 6: Generating Dataset'') w)) in
      case generate_try client config_builder num_samples w0 of
        (Inl e, w1) \<Rightarrow> (Inr PyNone, print_exc e (print (ErrorDuringGeneration e) w1))
      | (Inr dataset, w1) \<Rightarrow> (Inr dataset, w1))"

subsection \<open>Step 7: the save step\<close>

text \<open>
  \<^verbatim>\<open>row[name]\<close>: the cell of the row under the column \<^verbatim>\<open>name\<close>, a
  \<^verbatim>\<open>KeyError\<close> when the frame has no such column.
\<close>

definition row_get :: "string list \<Rightarrow> (string \<Rightarrow> pyval) \<Rightarrow> string \<Rightarrow> error + pyval" where
  "row_get cols row name = (if name \<in> set cols then Inr (row name) else Inl (KeyError name))"

text \<open>
  The loop \<^verbatim>\<open>for idx, row in dataset.iterrows()\<close>, with \<^verbatim>\<open>data_list\<close> as its
  accumulator.
\<close>

fun build_records :: "string list \<Rightarrow> (pyval \<times> (string \<Rightarrow> pyval)) list \<Rightarrow>
    output_record list \<Rightarrow> error + output_record list" where
  "build_records cols [] data_list = Inr data_list"
| "build_records cols ((idx, row) # rest) data_list =
     (case row_get cols row ''category'' of
        Inl e \<Rightarrow> Inl e
      | Inr category \<Rightarrow>
     (case row_get cols row ''subcategory'' of
        Inl e \<Rightarrow> Inl e
      | Inr subcategory \<Rightarrow>
          (let rec = [(''sample_id'', idx), (''category'', category),
                      (''subcategory'', subcategory)] in
           if ''telemetry_value'' \<in> set cols then
             (case row_get cols row ''telemetry_value'' of
                Inl e \<Rightarrow> Inl e
              | Inr v \<Rightarrow>
                  build_records cols rest
                    (data_list @ [dict_set ''telemetry_value'' v rec]))
           else build_records cols rest (data_list @ [rec]))))"

text \<open>
  The preview of the first five samples: \<^verbatim>\<open>sample['category']\<close> raises a
  \<^verbatim>\<open>KeyError\<close> on a record without the key.
\<close>

definition dict_item :: "('k, 'v) dict \<Rightarrow> 'k \<Rightarrow> 'v option" where
  "dict_item d k = map_of d k"

fun print_samples :: "nat \<Rightarrow> output_record list \<Rightarrow> world \<Rightarrow> (error + unit) \<times> world" where
  "print_samples i [] w = (Inr (), w)"
| "print_samples i (sample # rest) w =
     (let w1 = print (SampleNumber (i + 1)) w in
      case dict_item sample ''category'' of
        None \<Rightarrow> (Inl (KeyError ''category''), w1)
      | Some category \<Rightarrow>
     (let w2 = print (CategoryLine category) w1 in
      case dict_item sample ''subcategory'' of
        None \<Rightarrow> (Inl (KeyError ''subcategory''), w2)
      | Some subcategory \<Rightarrow>
     (let w3 = print (SubcategoryLine subcategory) w2;
          w4 = (case dict_item sample ''telemetry_value'' of
                  None \<Rightarrow> w3
                | Some v \<Rightarrow> print (ValueLine v) w3)
      in print_samples (i + 1) rest w4)))"

text \<open>
  The statistics: the frequency count, and \<^verbatim>\<open>sorted(category_counts.items())\<close>.
  The keys of the count are distinct, so the order of two items is the order of their
  keys. Python orders strings among themselves and numbers among themselves, and raises
  a \<^verbatim>\<open>TypeError\<close> on any other pair it has to compare, which a sort of two or more
  items does as soon as their keys are not all strings or all numbers. Among numbers
  every comparison with a NaN is false: the sort does not raise, and where it leaves the
  items is a matter of its algorithm, which is not modelled; the items are then kept as
  one message that stands for their lines in that order.
\<close>

fun count_categories :: "output_record list \<Rightarrow> (pyval, nat) dict \<Rightarrow>
    error + (pyval, nat) dict" where
  "count_categories [] category_counts = Inr category_counts"
| "count_categories (sample # rest) category_counts =
     (case dict_item sample ''category'' of
        None \<Rightarrow> Inl (KeyError ''category'')
      | Some cat \<Rightarrow>
          count_categories rest
            (dict_set cat (dict_get category_counts cat 0 + 1) category_counts))"

fun is_str :: "pyval \<Rightarrow> bool" where
  "is_str (PStr s) = True"
| "is_str v = False"

fun is_int :: "pyval \<Rightarrow> bool" where
  "is_int (PInt i) = True"
| "is_int v = False"

fun str_of :: "pyval \<Rightarrow> string" where
  "str_of (PStr s) = s"
| "str_of v = []"

fun int_of :: "pyval \<Rightarrow> int" where
  "int_of (PInt i) = i"
| "int_of v = 0"

fun is_number :: "pyval \<Rightarrow> bool" where
  "is_number (PInt i) = True"
| "is_number (PNaN obj) = True"
| "is_number v = False"

datatype sort_result =
    Sorted "(pyval, nat) dict"
  | LeftToTheAlgorithm "(pyval, nat) dict"

definition sorted_items :: "(pyval, nat) dict \<Rightarrow> error + sort_result" where
  "sorted_items items =
     (if length items \<le> 1 then Inr (Sorted items)
      else if list_all is_str (keys items)
        then Inr (Sorted (sort_key (\<lambda>(k, n). str_of k) items))
      else if list_all is_int (keys items)
        then Inr (Sorted (sort_key (\<lambda>(k, n). int_of k) items))
      else if list_all is_number (keys items) then Inr (LeftToTheAlgorithm items)
      else Inl TypeError)"

definition print_statistics :: "output_record list \<Rightarrow> world \<Rightarrow> (error + unit) \<times> world" where
  "print_statistics data_list w =
     (let w1 = print StatisticsHeader w in
      case count_categories data_list [] of
        Inl e \<Rightarrow> (Inl e, w1)
      | Inr category_counts \<Rightarrow>
          (let w2 = print SamplesPerCategory
                      (print (UniqueCategories (length category_counts))
                         (print (TotalSamples (length data_list)) w1)) in
           case sorted_items category_counts of
             Inl e \<Rightarrow> (Inl e, w2)
           | Inr (Sorted items) \<Rightarrow>
               (Inr (), fold (\<lambda>(category, count). print (CategoryCount category count))
                          items w2)
           | Inr (LeftToTheAlgorithm items) \<Rightarrow>
               (Inr (), print (CategoryCountsInSortOrder items) w2)))"

text \<open>
  \<^verbatim>\<open>save_and_display_results\<close>. The two guards come first; a dataset that is not a
  frame has no \<^verbatim>\<open>iterrows\<close>. The file system accepts every write.
\<close>

definition write_json :: "string \<Rightarrow> output_record list \<Rightarrow> world \<Rightarrow> world" where
  "write_json output_file data_list w = w\<lparr>files := (files w)(output_file \<mapsto> data_list)\<rparr>"

definition save_frame :: "dataframe \<Rightarrow> string \<Rightarrow> world \<Rightarrow> (error + unit) \<times> world" where
  "save_frame df output_file w =
     (case build_records (columns df) (rows df) [] of
        Inl e \<Rightarrow> (Inl e, w)
      | Inr data_list \<Rightarrow>
          (let w1 = print PreviewHeader
                      (print (DatasetSavedTo output_file)
                         (write_json output_file data_list w)) in
           case print_samples 0 (take 5 data_list) w1 of
             (Inl e, w2) \<Rightarrow> (Inl e, w2)
           | (Inr u, w2) \<Rightarrow> print_statistics data_list w2))"

definition save_and_display_results :: "pyobj \<Rightarrow> string \<Rightarrow> world \<Rightarrow> (error + unit) \<times> world" where
  "save_and_display_results dataset output_file w =
     (let w0 = print (StepBanner ''STEP 7: Saving Results'') w in
      if dataset = PyNone then (Inr (), print NoDatasetToSave w0)
      else
        (case py_len dataset of
           Inl e \<Rightarrow> (Inl e, w0)
         | Inr n \<Rightarrow>
             if n = 0 then (Inr (), print DatasetIsEmpty w0)
             else
               (case dataset of
                  DataFrame df \<Rightarrow> save_frame df output_file w0
                | _ \<Rightarrow> (Inl (AttributeError ''iterrows''), w0))))"

definition default_output_file :: string where
  "default_output_file = ''dimo_telemetry_data.json''"

definition initial_world :: world where
  "initial_world = \<lparr>stdout = [], stderr = [], files = Map.empty\<rparr>"

subsection \<open>Notions the properties are stated with\<close>

text \<open>The categories whose subcategory list holds a given name.\<close>

definition categories_of :: "(string, string list) dict \<Rightarrow> string \<Rightarrow> string list" where
  "categories_of d x = [c. (c, subs) \<leftarrow> d, x \<in> set subs]"

text \<open>
  The record that a row of a frame with the columns \<open>cols\<close> is expected to give: the
  index label and the cells of the row, as the row holds them.
\<close>

definition record_of :: "string list \<Rightarrow> pyval \<times> (string \<Rightarrow> pyval) \<Rightarrow> output_record" where
  "record_of cols = (\<lambda>(idx, row).
     [(''sample_id'', idx), (''category'', row ''category''),
      (''subcategory'', row ''subcategory'')] @
     (if ''telemetry_value'' \<in> set cols
      then [(''telemetry_value'', row ''telemetry_value'')] else []))"

text \<open>The index labels of a frame that carries the default index \<open>0, ..., n - 1\<close>.\<close>

definition default_index :: "nat \<Rightarrow> pyval list" where
  "default_index n = map (\<lambda>i. PInt (int i)) [0..<n]"

text \<open>
  The shapes of a preview result in the order the generation step tries them, and the
  objects that are frames (the ones with both \<^verbatim>\<open>len()\<close> and \<^verbatim>\<open>head()\<close>).
\<close>

fun is_frame :: "pyobj \<Rightarrow> bool" where
  "is_frame (DataFrame df) = True"
| "is_frame obj = False"

definition attribute :: "pyobj \<Rightarrow> string \<Rightarrow> pyobj" where
  "attribute obj a = (case getattr obj a of Inl e \<Rightarrow> PyNone | Inr v \<Rightarrow> v)"

definition candidate :: "pyobj \<Rightarrow> pyobj" where
  "candidate preview_result =
     (if hasattr preview_result ''dataset'' then attribute preview_result ''dataset''
      else if hasattr preview_result ''data'' then attribute preview_result ''data''
      else if hasattr preview_result ''__iter__'' then preview_result
      else PyNone)"

text \<open>
  Concrete inputs: rows given by their cells, three datasets (in the third the telemetry
  value is missing in both rows, once as NaN and once as \<^verbatim>\<open>None\<close>), a builder
  without columns, three clients.
\<close>

definition series :: "pyval \<Rightarrow> pyval \<Rightarrow> pyval \<Rightarrow> string \<Rightarrow> pyval" where
  "series category subcategory telemetry_value name =
     (if name = ''category'' then category
      else if name = ''subcategory'' then subcategory
      else telemetry_value)"

definition frame_default_index :: dataframe where
  "frame_default_index =
     \<lparr>columns = [''category'', ''subcategory'', ''telemetry_value''],
      rows = [(PInt 0, series (PStr ''fuel_system'') (PStr ''fuel_type'') (PStr ''diesel'')),
              (PInt 1, series (PStr ''engine_metrics'') (PStr ''engine_rpm'') (PNaN 0))]\<rparr>"

definition frame_filtered_index :: dataframe where
  "frame_filtered_index =
     \<lparr>columns = [''category'', ''subcategory''],
      rows = [(PInt 3, series (PStr ''fuel_system'') (PStr ''fuel_type'') PNone),
              (PInt 7, series (PStr ''engine_metrics'') (PStr ''engine_rpm'') PNone)]\<rparr>"

definition frame_missing_value :: dataframe where
  "frame_missing_value =
     \<lparr>columns = [''category'', ''subcategory'', ''telemetry_value''],
      rows = [(PInt 0, series (PStr ''fuel_system'') (PStr ''fuel_type'') (PNaN 0)),
              (PInt 1, series (PStr ''engine_metrics'') (PStr ''engine_rpm'') PNone)]\<rparr>"

definition empty_builder :: "unit config_builder" where
  "empty_builder = \<lparr>model_configs = [()], column_configs = []\<rparr>"

definition failing_client :: "unit client" where
  "failing_client = (\<lambda>config_builder num_records. Inl (ServiceError ''connection refused''))"

definition container_client :: "unit client" where
  "container_client = (\<lambda>config_builder num_records.
     Inr (Object [(''dataset'', DataFrame frame_default_index),
                  (''data'', DataFrame frame_filtered_index)]))"

definition list_client :: "unit client" where
  "list_client = (\<lambda>config_builder num_records. Inr (PyList [Object []]))"

section \<open>Properties of the taxonomy\<close>

lemma taxonomy_sizes:
  "map (\<lambda>(c, subs). (c, length subs)) define_dimo_categories =
    [(''vehicle_info_status'', 5), (''location_data'', 4), (''battery_charging'', 8),
     (''engine_metrics'', 5), (''fuel_system'', 3), (''tire_pressure'', 4),
     (''doors_windows'', 8), (''diagnostics'', 5), (''environmental'', 1),
     (''device_connectivity'', 4)]"
  by (simp add: define_dimo_categories_def)

lemma taxonomy_keys_distinct: "distinct (keys define_dimo_categories)"
  by (simp add: define_dimo_categories_def keys_def)

text \<open>
  C5, as the specification states it, fails: the category \<^verbatim>\<open>environmental\<close> declares
  one leaf, \<^verbatim>\<open>exterior_air_temperature\<close>, which is fewer than three.
\<close>

theorem taxonomy_environmental_below_three:
  "(''environmental'', [''exterior_air_temperature'']) \<in> set define_dimo_categories \<and>
   \<not> (3 \<le> length [''exterior_air_temperature''] \<and> length [''exterior_air_temperature''] \<le> 8)"
  by (simp add: define_dimo_categories_def)

text \<open>
  C5 (amended): the taxonomy has exactly 10 categories; \<^verbatim>\<open>environmental\<close> has exactly
  one leaf subcategory and every other category has between 3 and 8; the leaves number
  47 in total.
\<close>

theorem taxonomy_shape:
  "length define_dimo_categories = 10 \<and>
   list_all (\<lambda>(c, subs). if c = ''environmental'' then length subs = 1
                          else 3 \<le> length subs \<and> length subs \<le> 8)
     define_dimo_categories \<and>
   sum_list (map length (dict_values define_dimo_categories)) = 47"
  by (simp add: define_dimo_categories_def dict_values_def)

text \<open>
  C6: the category keys of the literal are pairwise distinct (so the dictionary holds the
  literal as written), no subcategory list repeats an entry, and every subcategory name
  occurs under exactly one category: the concatenation of all the lists has no
  repetition, and each leaf has exactly one owning category.
\<close>

theorem taxonomy_no_duplicates:
  "distinct (keys define_dimo_categories) \<and>
   list_all distinct (dict_values define_dimo_categories) \<and>
   distinct (concat (dict_values define_dimo_categories)) \<and>
   list_all (\<lambda>x. length (categories_of define_dimo_categories x) = 1)
     (concat (dict_values define_dimo_categories))"
  by (simp add: define_dimo_categories_def keys_def dict_values_def categories_of_def)

section \<open>The subcategory column\<close>

lemma dict_set_fresh: "k \<notin> set (map fst d) \<Longrightarrow> dict_set k v d = d @ [(k, v)]"
  by (induction d) auto

lemma fold_dict_set_distinct:
  "distinct (map fst d) \<Longrightarrow> set (map fst acc) \<inter> set (map fst d) = {} \<Longrightarrow>
   fold (\<lambda>(k, v) m. dict_set k v m) d acc = acc @ d"
proof (induction d arbitrary: acc)
  case Nil
  then show ?case by simp
next
  case (Cons p d)
  obtain k v where p: "p = (k, v)" by (cases p)
  from Cons.prems p have fresh: "k \<notin> set (map fst acc)" by auto
  have step: "dict_set k v acc = acc @ [(k, v)]" using fresh by (rule dict_set_fresh)
  from Cons.prems p have d: "distinct (map fst d)" and
    disj: "set (map fst (acc @ [(k, v)])) \<inter> set (map fst d) = {}" by auto
  show ?case using Cons.IH [OF d disj] p step by simp
qed

lemma map_of_dict_set: "map_of (dict_set k v d) = (map_of d)(k \<mapsto> v)"
  by (induction d) (auto simp: fun_eq_iff)

text \<open>
  C1: for every taxonomy dictionary, the column registered under the name
  \<^verbatim>\<open>subcategory\<close> is a subcategory sampler whose parameters name \<^verbatim>\<open>category\<close> as
  the conditioning column and whose values mapping is the taxonomy itself: the same
  keys in the same order, each with exactly the subcategory list the taxonomy declares
  for it. (Keys of a dictionary are distinct.)
\<close>

theorem subcategory_column_conditioned_on_category:
  assumes "distinct (keys categories)"
  shows "dict_item (column_configs
             (create_category_subcategory_columns config_builder categories model_alias))
           ''subcategory'' =
         Some (SamplerColumnConfig ''subcategory'' SUBCATEGORY
                 (SubcategorySamplerParams ''category'' categories))"
proof -
  have "fold (\<lambda>(category, subcategories) m. dict_set category subcategories m) categories []
        = categories"
    using fold_dict_set_distinct [of categories "[]"] assms by (simp add: keys_def)
  then show ?thesis
    by (simp add: create_category_subcategory_columns_def add_column_def Let_def
        map_of_dict_set dict_item_def)
qed

theorem subcategory_column_of_the_taxonomy:
  "dict_item (column_configs
       (create_category_subcategory_columns empty_builder define_dimo_categories
          ''nemotron-nano-v3''))
     ''subcategory'' =
   Some (SamplerColumnConfig ''subcategory'' SUBCATEGORY
           (SubcategorySamplerParams ''category'' define_dimo_categories))"
  using taxonomy_keys_distinct
  by (rule subcategory_column_conditioned_on_category)

section \<open>The generation step\<close>

lemma is_frame_iff:
  "is_frame d \<longleftrightarrow> d \<noteq> PyNone \<and> (\<exists>n. py_len d = Inr n) \<and> (\<exists>h. head d 1 = Inr h)"
  by (cases d) auto

lemma getattr_hasattr:
  "hasattr obj a \<Longrightarrow> a \<noteq> ''__iter__'' \<Longrightarrow> getattr obj a = Inr (attribute obj a)"
proof (cases obj)
  case (Object attrs)
  assume "hasattr obj a"
  with Object obtain v where "map_of attrs a = Some v"
    by (cases "map_of attrs a") (auto simp: map_of_eq_None_iff)
  with Object show ?thesis by (simp add: attribute_def)
qed (auto simp: attribute_def)

lemma fst_extract_dataset: "fst (extract_dataset r w) = Inr (candidate r)"
  by (simp add: extract_dataset_def candidate_def getattr_hasattr)

lemma fst_report_dataset:
  "fst (report_dataset d w) = (if d = PyNone then Inr PyNone
     else if is_frame d then Inr d
     else Inl (case py_len d of Inl e \<Rightarrow> e | Inr n \<Rightarrow> AttributeError ''head''))"
  by (cases d) (simp_all add: report_dataset_def Let_def)

lemma fst_generate_try:
  assumes "client cb n = Inr r"
  shows "fst (generate_try client cb n w) =
     (if candidate r = PyNone then Inr PyNone
      else if is_frame (candidate r) then Inr (candidate r)
      else Inl (case py_len (candidate r) of Inl e \<Rightarrow> e | Inr n \<Rightarrow> AttributeError ''head''))"
proof (cases "r = PyNone")
  case True
  then show ?thesis using assms by (simp add: generate_try_def Let_def candidate_def)
next
  case False
  define w2 where "w2 = print (ResultType r) (print PreviewCompleted (print CallingPreview w))"
  obtain x w3 where ex: "extract_dataset r w2 = (x, w3)" by (cases "extract_dataset r w2")
  then have x: "x = Inr (candidate r)" using fst_extract_dataset [of r w2] by simp
  have "generate_try client cb n w = report_dataset (candidate r) w3"
    using assms False ex x by (simp add: generate_try_def Let_def w2_def)
  then show ?thesis by (simp add: fst_report_dataset)
qed

lemma generate_never_raises: "\<exists>d. fst (generate_dimo_dataset client cb n w) = Inr d"
  by (simp add: generate_dimo_dataset_def Let_def split: prod.splits sum.splits)

text \<open>
  What the step returns, whatever the preview call hands back: the candidate that the
  first shape to apply selects, when the candidate is a frame, and \<^verbatim>\<open>None\<close> in
  every other case.
\<close>

lemma generation_result:
  assumes "client config_builder num_samples = Inr preview_result"
  shows "fst (generate_dimo_dataset client config_builder num_samples w) =
           Inr (if is_frame (candidate preview_result) then candidate preview_result
                else PyNone)"
proof -
  define w0 where "w0 = print MayTakeAFewMoments
                 (print (GeneratingSamples num_samples)
                    (print (StepBanner ''STEP 6: Generating Dataset'') w))"
  obtain x w1 where g: "generate_try client config_builder num_samples w0 = (x, w1)"
    by (cases "generate_try client config_builder num_samples w0")
  have x: "x = (if candidate preview_result = PyNone then Inr PyNone
      else if is_frame (candidate preview_result) then Inr (candidate preview_result)
      else Inl (case py_len (candidate preview_result) of
                  Inl e \<Rightarrow> e | Inr n \<Rightarrow> AttributeError ''head''))"
    using fst_generate_try [of client config_builder num_samples preview_result w0] assms g
    by simp
  show ?thesis
    using g x by (auto simp: generate_dimo_dataset_def Let_def w0_def [symmetric])
qed

lemma generation_prefers_dataset_attribute:
  "fst (generate_dimo_dataset container_client empty_builder 10 initial_world) =
     Inr (DataFrame frame_default_index)"
proof -
  have call: "container_client empty_builder 10 =
      Inr (Object [(''dataset'', DataFrame frame_default_index),
                   (''data'', DataFrame frame_filtered_index)])"
    by (simp add: container_client_def)
  show ?thesis
    using generation_result
      [of container_client empty_builder 10
          "Object [(''dataset'', DataFrame frame_default_index),
                   (''data'', DataFrame frame_filtered_index)]" initial_world] call
    by (simp add: candidate_def attribute_def)
qed

text \<open>
  C7 is what the step sets out to do, and the code misses it on the third shape. When
  the preview call hands back a plain list, the step takes the list as the dataset
  (it prints that it uses the result directly, and that one sample was generated) and
  then prints \<^verbatim>\<open>dataset.head(1)\<close> for the log; a list has no \<^verbatim>\<open>head\<close>, the
  \<^verbatim>\<open>AttributeError\<close> is raised inside the \<^verbatim>\<open>try\<close> block, and the handler returns
  \<^verbatim>\<open>None\<close> in place of the list. The run of the step on that input:
\<close>

theorem raw_list_is_lost_to_the_log_line:
  "hasattr (PyList [Object []]) ''__iter__'' \<and>
   generate_dimo_dataset list_client empty_builder 10 initial_world =
     (Inr PyNone,
      \<lparr>stdout =
         [StepBanner ''STEP 6: Generating Dataset'', GeneratingSamples 10,
          MayTakeAFewMoments, CallingPreview, PreviewCompleted,
          ResultType (PyList [Object []]), UsingResultDirectly,
          DatasetType (PyList [Object []]), SuccessfullyGenerated 1, FirstSample,
          ErrorDuringGeneration (AttributeError ''head'')],
       stderr = [Traceback (AttributeError ''head'')],
       files = Map.empty\<rparr>)"
  by (simp add: generate_dimo_dataset_def generate_try_def extract_dataset_def
      report_dataset_def Let_def list_client_def print_def print_exc_def
      initial_world_def)

text \<open>
  C8: whenever the preview call raises, the generation step returns \<^verbatim>\<open>None\<close>
  normally instead of raising, having printed the error message (and the traceback on
  the error stream); no file is touched.
\<close>

theorem generation_failure_is_caught:
  assumes "client config_builder num_samples = Inl e"
  shows "\<exists>w'. generate_dimo_dataset client config_builder num_samples w = (Inr PyNone, w') \<and>
           ErrorDuringGeneration e \<in> set (stdout w') \<and>
           Traceback e \<in> set (stderr w') \<and> files w' = files w"
proof -
  define w1 where "w1 = print CallingPreview (print MayTakeAFewMoments
                 (print (GeneratingSamples num_samples)
                    (print (StepBanner ''STEP 6: Generating Dataset'') w)))"
  define w' where "w' = print_exc e (print (ErrorDuringGeneration e) w1)"
  have "generate_dimo_dataset client config_builder num_samples w = (Inr PyNone, w')"
    using assms by (simp add: generate_dimo_dataset_def generate_try_def Let_def w1_def w'_def)
  moreover have "ErrorDuringGeneration e \<in> set (stdout w')"
    by (simp add: w'_def print_def print_exc_def)
  moreover have "Traceback e \<in> set (stderr w')"
    by (simp add: w'_def print_def print_exc_def)
  moreover have "files w' = files w"
    by (simp add: w'_def w1_def print_def print_exc_def)
  ultimately show ?thesis by blast
qed

theorem refused_connection_is_caught:
  "\<exists>w'. generate_dimo_dataset failing_client empty_builder 10 initial_world = (Inr PyNone, w') \<and>
         ErrorDuringGeneration (ServiceError ''connection refused'') \<in> set (stdout w') \<and>
         Traceback (ServiceError ''connection refused'') \<in> set (stderr w') \<and>
         files w' = files initial_world"
proof -
  have call: "failing_client empty_builder 10 = Inl (ServiceError ''connection refused'')"
    by (simp add: failing_client_def)
  show ?thesis
    using generation_failure_is_caught
      [of failing_client empty_builder 10 "ServiceError ''connection refused''"
          initial_world] call
    by simp
qed

section \<open>The save step\<close>

subsection \<open>The records built from the rows\<close>

lemma build_records_valid:
  "''category'' \<in> set cols \<Longrightarrow> ''subcategory'' \<in> set cols \<Longrightarrow>
   build_records cols rs data_list = Inr (data_list @ map (record_of cols) rs)"
proof (induction rs arbitrary: data_list)
  case Nil
  then show ?case by simp
next
  case (Cons r rs)
  obtain idx row where r: "r = (idx, row)" by (cases r)
  show ?case
  proof (cases "''telemetry_value'' \<in> set cols")
    case True
    then show ?thesis
      using Cons r by (simp add: row_get_def record_of_def)
  next
    case False
    then show ?thesis
      using Cons r by (simp add: row_get_def record_of_def)
  qed
qed

lemma build_records_missing_category:
  "''category'' \<notin> set cols \<Longrightarrow> rs \<noteq> [] \<Longrightarrow>
   build_records cols rs data_list = Inl (KeyError ''category'')"
  by (cases rs) (auto simp: row_get_def)

lemma build_records_missing_subcategory:
  "''category'' \<in> set cols \<Longrightarrow> ''subcategory'' \<notin> set cols \<Longrightarrow> rs \<noteq> [] \<Longrightarrow>
   build_records cols rs data_list = Inl (KeyError ''subcategory'')"
  by (cases rs) (auto simp: row_get_def)

lemma keys_record_of:
  "keys (record_of cols r) =
     [''sample_id'', ''category'', ''subcategory''] @
     (if ''telemetry_value'' \<in> set cols then [''telemetry_value''] else [])"
  by (cases r) (simp add: record_of_def keys_def)

lemma fields_record_of:
  "dict_item (record_of cols (idx, row)) ''sample_id'' = Some idx"
  "dict_item (record_of cols (idx, row)) ''category'' = Some (row ''category'')"
  "dict_item (record_of cols (idx, row)) ''subcategory'' = Some (row ''subcategory'')"
  "dict_item (record_of cols (idx, row)) ''telemetry_value'' =
     (if ''telemetry_value'' \<in> set cols then Some (row ''telemetry_value'') else None)"
  by (simp_all add: record_of_def dict_item_def)

subsection \<open>Printing leaves the files alone\<close>

lemma files_print: "files (print m w) = files w"
  by (simp add: print_def)

lemma files_print_samples: "files (snd (print_samples i xs w)) = files w"
  by (induction i xs w rule: print_samples.induct)
     (auto simp: Let_def files_print split: option.splits)

lemma files_fold_print:
  "files (fold (\<lambda>(category, count). print (CategoryCount category count)) items w) = files w"
  by (induction items arbitrary: w) (auto simp: files_print)

lemma files_print_statistics: "files (snd (print_statistics data_list w)) = files w"
  by (simp add: print_statistics_def Let_def files_print files_fold_print
      split: sum.splits sort_result.splits)

subsection \<open>The file after the step\<close>

lemma files_save_frame:
  assumes "''category'' \<in> set (columns df)" "''subcategory'' \<in> set (columns df)"
  shows "files (snd (save_frame df output_file w)) =
         (files w)(output_file \<mapsto> map (record_of (columns df)) (rows df))"
proof -
  have b: "build_records (columns df) (rows df) [] = Inr (map (record_of (columns df)) (rows df))"
    using build_records_valid [OF assms, of "rows df" "[]"] by simp
  define data_list where "data_list = map (record_of (columns df)) (rows df)"
  define w1 where "w1 = print PreviewHeader
                      (print (DatasetSavedTo output_file)
                         (write_json output_file data_list w))"
  obtain r w2 where ps: "print_samples 0 (take 5 data_list) w1 = (r, w2)"
    by (cases "print_samples 0 (take 5 data_list) w1")
  have "files w2 = files w1"
    using files_print_samples [of 0 "take 5 data_list" w1] ps by simp
  then have w2: "files w2 = (files w)(output_file \<mapsto> data_list)"
    by (simp add: w1_def write_json_def files_print)
  have "files (snd (save_frame df output_file w)) = files w2"
    using b ps
    by (cases r)
       (simp_all add: save_frame_def Let_def data_list_def w1_def files_print_statistics)
  then show ?thesis using w2 by (simp add: data_list_def)
qed

lemma file_after_save:
  assumes "rows df \<noteq> []"
    and "''category'' \<in> set (columns df)" and "''subcategory'' \<in> set (columns df)"
  shows "files (snd (save_and_display_results (DataFrame df) output_file w)) output_file =
         Some (map (record_of (columns df)) (rows df))"
  using assms(1) files_save_frame [OF assms(2,3)]
  by (simp add: save_and_display_results_def Let_def)

subsection \<open>The step returns when the categories are strings\<close>

text \<open>
  After the file is written the step can still raise, in the sort of the statistics,
  when the categories are neither all strings nor all numbers. On the datasets the
  service is asked for, whose categories are strings, it returns normally.
\<close>

lemma print_samples_returns:
  "list_all (\<lambda>r. dict_item r ''category'' \<noteq> None \<and> dict_item r ''subcategory'' \<noteq> None) xs \<Longrightarrow>
   fst (print_samples i xs w) = Inr ()"
  by (induction i xs w rule: print_samples.induct) (auto simp: Let_def)

lemma keys_dict_set: "set (keys (dict_set k v d)) = insert k (set (keys d))"
  by (induction k v d rule: dict_set.induct) (auto simp: keys_def)

lemma count_categories_strings:
  "list_all (\<lambda>r. \<exists>s. dict_item r ''category'' = Some (PStr s)) xs \<Longrightarrow>
   list_all is_str (keys acc) \<Longrightarrow>
   \<exists>counts. count_categories xs acc = Inr counts \<and> list_all is_str (keys counts)"
proof (induction xs arbitrary: acc)
  case Nil
  then show ?case by simp
next
  case (Cons r xs)
  from Cons.prems(1) obtain s where s: "dict_item r ''category'' = Some (PStr s)"
    and rest: "list_all (\<lambda>r. \<exists>s. dict_item r ''category'' = Some (PStr s)) xs"
    by auto
  have "list_all is_str (keys (dict_set (PStr s) (dict_get acc (PStr s) 0 + 1) acc))"
    using Cons.prems(2) by (simp add: list_all_iff keys_dict_set)
  from Cons.IH [OF rest this] s show ?case by simp
qed

lemma sorted_items_strings:
  "list_all is_str (keys items) \<Longrightarrow> \<exists>ordered. sorted_items items = Inr (Sorted ordered)"
  by (simp add: sorted_items_def)

lemma print_statistics_returns:
  assumes "list_all (\<lambda>r. \<exists>s. dict_item r ''category'' = Some (PStr s)) data_list"
  shows "fst (print_statistics data_list w) = Inr ()"
proof -
  from count_categories_strings [OF assms, of "[]"]
  obtain counts where c: "count_categories data_list [] = Inr counts"
    and k: "list_all is_str (keys counts)" by (auto simp: keys_def)
  from sorted_items_strings [OF k]
  obtain ordered where "sorted_items counts = Inr (Sorted ordered)" ..
  with c show ?thesis by (simp add: print_statistics_def Let_def)
qed

lemma save_returns_for_string_categories:
  assumes "rows df \<noteq> []"
    and "''category'' \<in> set (columns df)" and "''subcategory'' \<in> set (columns df)"
    and "list_all (\<lambda>(idx, row). is_str (row ''category'')) (rows df)"
  shows "fst (save_and_display_results (DataFrame df) output_file w) = Inr ()"
proof -
  define data_list where "data_list = map (record_of (columns df)) (rows df)"
  have b: "build_records (columns df) (rows df) [] = Inr data_list"
    using build_records_valid [OF assms(2,3), of "rows df" "[]"] by (simp add: data_list_def)
  have cats: "list_all (\<lambda>r. \<exists>s. dict_item r ''category'' = Some (PStr s)) data_list"
  proof -
    have "\<exists>s. dict_item (record_of (columns df) x) ''category'' = Some (PStr s)"
      if "x \<in> set (rows df)" for x
    proof -
      obtain idx row where x: "x = (idx, row)" by (cases x)
      with that assms(4) have "is_str (row ''category'')"
        by (auto simp: list_all_iff)
      then obtain s where "row ''category'' = PStr s"
        by (cases "row ''category''") auto
      with x show ?thesis by (simp add: fields_record_of)
    qed
    then show ?thesis by (simp add: list_all_iff data_list_def)
  qed
  have both: "list_all (\<lambda>r. dict_item r ''category'' \<noteq> None \<and>
      dict_item r ''subcategory'' \<noteq> None) (take 5 data_list)"
    by (auto simp: list_all_iff data_list_def record_of_def dict_item_def dest!: in_set_takeD)
  define w1 where "w1 = print PreviewHeader
                      (print (DatasetSavedTo output_file)
                         (write_json output_file data_list
                            (print (StepBanner ''STEP 7: Saving Results'') w)))"
  obtain r w2 where ps: "print_samples 0 (take 5 data_list) w1 = (r, w2)"
    by (cases "print_samples 0 (take 5 data_list) w1")
  with print_samples_returns [OF both, of 0 w1] have r: "r = Inr ()" by simp
  show ?thesis
    using assms(1) b ps r print_statistics_returns [OF cats, of w2]
    by (simp add: save_and_display_results_def save_frame_def Let_def w1_def)
qed

subsection \<open>The claims on the save step\<close>

text \<open>
  C3: given \<^verbatim>\<open>None\<close>, or a dataset of length zero, the save step returns normally and
  leaves every file as it was.
\<close>

theorem save_skips_null_and_empty:
  assumes "dataset = PyNone \<or> py_len dataset = Inr 0"
  shows "fst (save_and_display_results dataset output_file w) = Inr () \<and>
         files (snd (save_and_display_results dataset output_file w)) = files w"
proof (cases "dataset = PyNone")
  case True
  then show ?thesis by (simp add: save_and_display_results_def Let_def files_print)
next
  case False
  with assms have "py_len dataset = Inr 0" by simp
  with False show ?thesis by (simp add: save_and_display_results_def Let_def files_print)
qed

theorem save_skips_none_and_empty_frame:
  "fst (save_and_display_results PyNone default_output_file initial_world) = Inr () \<and>
   files (snd (save_and_display_results PyNone default_output_file initial_world)) =
     files initial_world \<and>
   fst (save_and_display_results
          (DataFrame \<lparr>columns = [''category'', ''subcategory''], rows = []\<rparr>)
          default_output_file initial_world) = Inr () \<and>
   files (snd (save_and_display_results
          (DataFrame \<lparr>columns = [''category'', ''subcategory''], rows = []\<rparr>)
          default_output_file initial_world)) = files initial_world"
  using save_skips_null_and_empty [of PyNone default_output_file initial_world]
    save_skips_null_and_empty
      [of "DataFrame \<lparr>columns = [''category'', ''subcategory''], rows = []\<rparr>"
          default_output_file initial_world]
  by simp

text \<open>
  C2, as the specification states it, fails: \<^verbatim>\<open>sample_id\<close> is the index label that
  \<^verbatim>\<open>iterrows()\<close> yields, not the position of the row. A dataset of two valid rows whose
  index labels are 3 and 7 is written with the sample ids 3 and 7, not 0 and 1.
\<close>

theorem sample_ids_follow_index_labels:
  "files (snd (save_and_display_results (DataFrame frame_filtered_index)
               default_output_file initial_world)) default_output_file =
     Some [[(''sample_id'', PInt 3), (''category'', PStr ''fuel_system''),
            (''subcategory'', PStr ''fuel_type'')],
           [(''sample_id'', PInt 7), (''category'', PStr ''engine_metrics''),
            (''subcategory'', PStr ''engine_rpm'')]] \<and>
   [PInt 3, PInt 7] \<noteq> [PInt 0, PInt 1]"
  by (simp add: file_after_save frame_filtered_index_def record_of_def series_def)

text \<open>
  C2 (amended): for every dataset of N rows (N positive) with the columns
  \<^verbatim>\<open>category\<close> and \<^verbatim>\<open>subcategory\<close>, the JSON array written to the output file has
  exactly N objects, and their \<^verbatim>\<open>sample_id\<close> fields are, in order, the index labels of
  the rows of the dataset; for a dataset that carries the default index they are
  0, ..., N - 1 in order.
\<close>

theorem save_writes_one_record_per_row:
  assumes "rows df \<noteq> []"
    and "''category'' \<in> set (columns df)" and "''subcategory'' \<in> set (columns df)"
  shows "\<exists>data_list.
     files (snd (save_and_display_results (DataFrame df) output_file w)) output_file
       = Some data_list \<and>
     length data_list = length (rows df) \<and>
     map (\<lambda>r. dict_item r ''sample_id'') data_list = map (\<lambda>(idx, row). Some idx) (rows df) \<and>
     (map fst (rows df) = default_index (length (rows df)) \<longrightarrow>
      map (\<lambda>r. dict_item r ''sample_id'') data_list =
        map Some (default_index (length (rows df))))"
proof -
  define data_list where "data_list = map (record_of (columns df)) (rows df)"
  have written: "files (snd (save_and_display_results (DataFrame df) output_file w))
      output_file = Some data_list"
    unfolding data_list_def by (rule file_after_save [OF assms])
  have len: "length data_list = length (rows df)"
    by (simp add: data_list_def)
  have ids: "map (\<lambda>r. dict_item r ''sample_id'') data_list =
      map (\<lambda>(idx, row). Some idx) (rows df)"
    by (auto simp: data_list_def record_of_def dict_item_def)
  have labels: "map (\<lambda>(idx, row). Some idx) (rows df) = map Some (map fst (rows df))"
    by auto
  have dflt: "map (\<lambda>r. dict_item r ''sample_id'') data_list =
      map Some (default_index (length (rows df)))"
    if "map fst (rows df) = default_index (length (rows df))"
    using ids labels that by simp
  from written len ids dflt show ?thesis by blast
qed

theorem default_index_gives_sequential_ids:
  "\<exists>data_list.
     files (snd (save_and_display_results (DataFrame frame_default_index)
               default_output_file initial_world)) default_output_file = Some data_list \<and>
     length data_list = 2 \<and>
     map (\<lambda>r. dict_item r ''sample_id'') data_list = [Some (PInt 0), Some (PInt 1)]"
proof -
  have "rows frame_default_index \<noteq> []"
    and "''category'' \<in> set (columns frame_default_index)"
    and "''subcategory'' \<in> set (columns frame_default_index)"
    by (simp_all add: frame_default_index_def)
  from save_writes_one_record_per_row [OF this, of default_output_file initial_world]
  show ?thesis by (auto simp: frame_default_index_def)
qed

text \<open>
  C4, as the specification states it, fails: in a dataset that has the
  \<^verbatim>\<open>telemetry_value\<close> column, a row whose telemetry value is missing is written with
  the field present, holding the cell as the row hands it back (NaN for the first row
  below, \<^verbatim>\<open>None\<close> for the second); the field is not skipped.
\<close>

theorem missing_value_is_not_skipped:
  "files (snd (save_and_display_results (DataFrame frame_missing_value)
               default_output_file initial_world)) default_output_file =
     Some [[(''sample_id'', PInt 0), (''category'', PStr ''fuel_system''),
            (''subcategory'', PStr ''fuel_type''), (''telemetry_value'', PNaN 0)],
           [(''sample_id'', PInt 1), (''category'', PStr ''engine_metrics''),
            (''subcategory'', PStr ''engine_rpm''), (''telemetry_value'', PNone)]]"
  by (simp add: file_after_save frame_missing_value_def record_of_def series_def)

text \<open>
  C4 (amended): for every row of a dataset with the columns \<^verbatim>\<open>category\<close> and
  \<^verbatim>\<open>subcategory\<close>, the record written for the row holds the index label of the row
  as \<^verbatim>\<open>sample_id\<close>, and the category and the subcategory of the row; it holds the
  field \<^verbatim>\<open>telemetry_value\<close> exactly when the dataset has a column of that name, and
  then with the cell of the row, whatever the cell is: the field of a row whose value is
  missing is present, not skipped.
\<close>

theorem record_fields_of_each_row:
  assumes "rows df \<noteq> []"
    and "''category'' \<in> set (columns df)" and "''subcategory'' \<in> set (columns df)"
  shows "\<exists>data_list.
     files (snd (save_and_display_results (DataFrame df) output_file w)) output_file
       = Some data_list \<and>
     list_all2 (\<lambda>(idx, row) r.
         dict_item r ''sample_id'' = Some idx \<and>
         dict_item r ''category'' = Some (row ''category'') \<and>
         dict_item r ''subcategory'' = Some (row ''subcategory'') \<and>
         dict_item r ''telemetry_value'' =
           (if ''telemetry_value'' \<in> set (columns df)
            then Some (row ''telemetry_value'') else None))
       (rows df) data_list"
proof -
  have "list_all2 (\<lambda>(idx, row) r.
         dict_item r ''sample_id'' = Some idx \<and>
         dict_item r ''category'' = Some (row ''category'') \<and>
         dict_item r ''subcategory'' = Some (row ''subcategory'') \<and>
         dict_item r ''telemetry_value'' =
           (if ''telemetry_value'' \<in> set (columns df)
            then Some (row ''telemetry_value'') else None))
       (rows df) (map (record_of (columns df)) (rows df))"
    by (auto simp: list_all2_map2 fields_record_of intro!: list_all2_refl)
  then show ?thesis using file_after_save [OF assms] by auto
qed

theorem record_fields_with_missing_value:
  "\<exists>data_list.
     files (snd (save_and_display_results (DataFrame frame_missing_value)
               default_output_file initial_world)) default_output_file = Some data_list \<and>
     list_all2 (\<lambda>(idx, row) r.
         dict_item r ''sample_id'' = Some idx \<and>
         dict_item r ''category'' = Some (row ''category'') \<and>
         dict_item r ''subcategory'' = Some (row ''subcategory'') \<and>
         dict_item r ''telemetry_value'' =
           (if ''telemetry_value'' \<in> set (columns frame_missing_value)
            then Some (row ''telemetry_value'') else None))
       (rows frame_missing_value) data_list \<and>
     ''telemetry_value'' \<in> set (columns frame_missing_value) \<and>
     map (\<lambda>(idx, row). row ''telemetry_value'') (rows frame_missing_value) =
       [PNaN 0, PNone]"
proof -
  have "rows frame_missing_value \<noteq> []"
    and "''category'' \<in> set (columns frame_missing_value)"
    and "''subcategory'' \<in> set (columns frame_missing_value)"
    by (simp_all add: frame_missing_value_def)
  from record_fields_of_each_row [OF this, of default_output_file initial_world]
  show ?thesis by (auto simp: frame_missing_value_def series_def)
qed

text \<open>
  C10: within one run of the save step the field \<^verbatim>\<open>telemetry_value\<close> is all or none.
  One record is written for each row of the dataset, in the order of the rows, and
  whether a record carries the key is decided by the columns of the dataset alone: when
  the dataset has a column of that name every record carries the key (also the record
  of a row whose value is missing), and when it has none no record does.
\<close>

theorem telemetry_field_is_all_or_none:
  assumes "rows df \<noteq> []"
    and "''category'' \<in> set (columns df)" and "''subcategory'' \<in> set (columns df)"
  shows "\<exists>data_list.
     files (snd (save_and_display_results (DataFrame df) output_file w)) output_file
       = Some data_list \<and>
     length data_list = length (rows df) \<and>
     list_all2 (\<lambda>(idx, row) r.
         dict_item r ''sample_id'' = Some idx \<and>
         (''telemetry_value'' \<in> set (keys r)) = (''telemetry_value'' \<in> set (columns df)))
       (rows df) data_list \<and>
     (if ''telemetry_value'' \<in> set (columns df)
      then list_all (\<lambda>r. ''telemetry_value'' \<in> set (keys r)) data_list
      else list_all (\<lambda>r. ''telemetry_value'' \<notin> set (keys r)) data_list)"
proof -
  define data_list where "data_list = map (record_of (columns df)) (rows df)"
  have written: "files (snd (save_and_display_results (DataFrame df) output_file w))
      output_file = Some data_list"
    unfolding data_list_def by (rule file_after_save [OF assms])
  have len: "length data_list = length (rows df)"
    by (simp add: data_list_def)
  have each: "list_all2 (\<lambda>(idx, row) r.
         dict_item r ''sample_id'' = Some idx \<and>
         (''telemetry_value'' \<in> set (keys r)) = (''telemetry_value'' \<in> set (columns df)))
       (rows df) data_list"
    unfolding data_list_def
    by (auto simp: list_all2_map2 fields_record_of keys_record_of intro!: list_all2_refl)
  have every: "list_all (\<lambda>r. ''telemetry_value'' \<in> set (keys r)) data_list"
    if "''telemetry_value'' \<in> set (columns df)"
    using that by (simp add: data_list_def list_all_iff keys_record_of)
  have none: "list_all (\<lambda>r. ''telemetry_value'' \<notin> set (keys r)) data_list"
    if "''telemetry_value'' \<notin> set (columns df)"
    using that by (simp add: data_list_def list_all_iff keys_record_of)
  show ?thesis
  proof (cases "''telemetry_value'' \<in> set (columns df)")
    case True
    with written len each every show ?thesis by auto
  next
    case False
    with written len each none show ?thesis by auto
  qed
qed

theorem telemetry_field_on_every_record:
  "\<exists>data_list.
     files (snd (save_and_display_results (DataFrame frame_missing_value)
               default_output_file initial_world)) default_output_file = Some data_list \<and>
     length data_list = 2 \<and>
     list_all (\<lambda>r. ''telemetry_value'' \<in> set (keys r)) data_list \<and>
     map (\<lambda>(idx, row). row ''telemetry_value'') (rows frame_missing_value) =
       [PNaN 0, PNone]"
proof -
  have "rows frame_missing_value \<noteq> []"
    and "''category'' \<in> set (columns frame_missing_value)"
    and "''subcategory'' \<in> set (columns frame_missing_value)"
    by (simp_all add: frame_missing_value_def)
  from telemetry_field_is_all_or_none [OF this, of default_output_file initial_world]
  show ?thesis by (auto simp: frame_missing_value_def series_def)
qed

end
